theory Spec2Isabelle
  imports Main "HOL-Library.Sublist" "HOL-Library.AList" "HOL-Library.Char_ord"
    "HOL-Library.List_Lexorder"
begin

section \<open>har-to-hoverfly: converting a HAR archive into a Hoverfly simulation\<close>

text \<open>
  The repository holds two programs of the same name. The first is
  \<^verbatim>\<open>har-to-hoverfly.go\<close>: it takes the archive as a positional argument and has the
  flags \<^verbatim>\<open>--max-response-bytes\<close>, \<^verbatim>\<open>--skip-non-text\<close>, \<^verbatim>\<open>--host\<close> and
  \<^verbatim>\<open>--summarise\<close>; its whole logic is in \<^verbatim>\<open>main\<close>, next to \<^verbatim>\<open>isTextContentType\<close>
  and \<^verbatim>\<open>truncate\<close>. The second takes \<^verbatim>\<open>--input\<close>, \<^verbatim>\<open>--max-body-bytes\<close>,
  \<^verbatim>\<open>--ignore-non-text\<close>, \<^verbatim>\<open>--allowed-content-types\<close>, \<^verbatim>\<open>--host\<close> and
  \<^verbatim>\<open>--summarise\<close>, and is made of \<^verbatim>\<open>main\<close>, \<^verbatim>\<open>isTextContent\<close>, \<^verbatim>\<open>parseURL\<close>,
  \<^verbatim>\<open>convertEntryToPair\<close> and \<^verbatim>\<open>truncate\<close>. Both are embedded here. Where the two
  programs use one name for different code, the definition taken from the second program
  carries the suffix \<open>_alt\<close>.

  A Go \<^verbatim>\<open>string\<close> is a sequence of bytes and \<^verbatim>\<open>len\<close> counts bytes; so does
  \<^typ>\<open>string\<close> with \<^const>\<open>length\<close>. A Go \<^verbatim>\<open>int\<close> is modelled by \<^typ>\<open>int\<close>: the only
  arithmetic either program performs on one is \<^verbatim>\<open>max-3\<close> in \<^verbatim>\<open>truncate\<close>, see there.
  A Go map that a program ranges over is kept as the list of its entries, in the order in
  which the keys were first stored; Go visits them in an unspecified order. A Go map that
  is only written and handed to the JSON encoder is a map \<open>'k \<rightharpoonup> 'v\<close>.
\<close>

subsection \<open>The standard library as the programs use it\<close>

text \<open>
  \<^verbatim>\<open>net/url\<close>. What the programs read of a parsed \<^verbatim>\<open>*url.URL\<close> are the fields
  \<^verbatim>\<open>Host\<close>, \<^verbatim>\<open>Path\<close> and \<^verbatim>\<open>RawQuery\<close> and the result of the method \<^verbatim>\<open>Query()\<close>, a Go map
  from a key to the slice of its values.
\<close>

record URL =
  Host :: string
  Path :: string
  RawQuery :: string
  Query :: "(string \<times> string list) list"

text \<open>The zero value \<^verbatim>\<open>url.URL{}\<close>.\<close>

definition URL_zero :: URL where
  "URL_zero = \<lparr>Host = [], Path = [], RawQuery = [], Query = []\<rparr>"

text \<open>
  Three functions of the standard library are not modelled but taken as given: every
  definition below that depends on one of them has the library as its first argument
  \<open>lib\<close>.
  \<^item> \<open>url_Parse\<close> is \<^verbatim>\<open>url.Parse\<close>, with \<open>None\<close> for a non-nil error.
  \<^item> \<open>unicode_ToLower\<close> is \<^verbatim>\<open>strings.Map(unicode.ToLower, s)\<close>, the lower-casing by code
    point to which \<^verbatim>\<open>strings.ToLower\<close> falls back on a string that has a byte above 127.
  \<^item> \<open>utf8_RuneCountInString\<close> is \<^verbatim>\<open>utf8.RuneCountInString\<close>, the number of code
    points of a string, by which \<^verbatim>\<open>fmt\<close> measures the width of a \<^verbatim>\<open>%s\<close> operand.
\<close>

record library =
  url_Parse :: "string \<Rightarrow> URL option"
  unicode_ToLower :: "string \<Rightarrow> string"
  utf8_RuneCountInString :: "string \<Rightarrow> nat"

text \<open>
  \<^verbatim>\<open>strings.Contains(s, substr)\<close>: whether \<open>substr\<close> occurs in \<open>s\<close> as a contiguous
  run of bytes. The empty string occurs in every string.
\<close>

fun Contains :: "string \<Rightarrow> string \<Rightarrow> bool" where
  "Contains [] substr = (substr = [])"
| "Contains (c # s) substr = (prefix substr (c # s) \<or> Contains s substr)"

text \<open>
  Whether every byte of a string is below \<^verbatim>\<open>utf8.RuneSelf\<close>, that is 128: the top bit of
  the byte is not set.
\<close>

definition isASCII :: "string \<Rightarrow> bool" where
  "isASCII s = list_all (\<lambda>c. \<not> digit7 c) s"

text \<open>
  \<^verbatim>\<open>strings.ToLower\<close>. On a string of ASCII bytes each of the letters \<open>A\<close> to \<open>Z\<close> moves
  to its lower-case letter and every other byte stays; on any other string the result is
  that of the lower-casing by code point (which sends, for instance, the two bytes of
  U+0130 to the letter \<open>i\<close>).
\<close>

definition lower_byte :: "char \<Rightarrow> char" where
  "lower_byte c =
     (case map_of (zip ''ABCDEFGHIJKLMNOPQRSTUVWXYZ'' ''abcdefghijklmnopqrstuvwxyz'') c of
        None \<Rightarrow> c
      | Some l \<Rightarrow> l)"

definition ToLower :: "library \<Rightarrow> string \<Rightarrow> string" where
  "ToLower lib s = (if isASCII s then map lower_byte s else unicode_ToLower lib s)"

text \<open>
  \<^verbatim>\<open>strings.Split(s, sep)\<close> for a separator of one byte: the pieces of \<open>s\<close> between the
  occurrences of the separator, so one piece more than there are separators; splitting
  the empty string gives one empty piece.
\<close>

fun Split :: "string \<Rightarrow> char \<Rightarrow> string list" where
  "Split [] sep = [[]]"
| "Split (c # s) sep =
     (if c = sep then [] # Split s sep
      else (case Split s sep of [] \<Rightarrow> [[c]] | w # ws \<Rightarrow> (c # w) # ws))"

text \<open>
  A slice expression \<^verbatim>\<open>s[:n]\<close> panics unless \<open>0 \<le> n \<le> len(s)\<close>.
\<close>

datatype panic = SliceBoundsOutOfRange

definition slice_to :: "string \<Rightarrow> int \<Rightarrow> panic + string" where
  "slice_to s n =
     (if 0 \<le> n \<and> n \<le> int (length s) then Inr (take (nat n) s)
      else Inl SliceBoundsOutOfRange)"

text \<open>
  Reading a Go map of slices at a key that is absent yields the nil slice, which
  \<^verbatim>\<open>append\<close> and \<^verbatim>\<open>range\<close> treat as the empty one. For a map kept as a list \<open>al\<close> of
  entries the read is \<open>at (map_of al) k\<close>.
\<close>

definition at :: "('k \<rightharpoonup> 'v list) \<Rightarrow> 'k \<Rightarrow> 'v list" where
  "at m k = (case m k of None \<Rightarrow> [] | Some vs \<Rightarrow> vs)"

text \<open>
  The verbs \<^verbatim>\<open>%-10s\<close>, \<^verbatim>\<open>%-30s\<close> and \<^verbatim>\<open>%-50s\<close> of \<^verbatim>\<open>fmt\<close>: the operand, followed by as
  many spaces as its number of code points is short of the width; a longer operand is
  written whole. A string of ASCII bytes has as many code points as bytes.
\<close>

definition RuneCountInString :: "library \<Rightarrow> string \<Rightarrow> nat" where
  "RuneCountInString lib s = (if isASCII s then length s else utf8_RuneCountInString lib s)"

definition pad_right :: "library \<Rightarrow> nat \<Rightarrow> string \<Rightarrow> string" where
  "pad_right lib w s = s @ replicate (w - RuneCountInString lib s) CHR '' ''"

text \<open>The line feed that ends a printed line.\<close>

definition newline :: char where
  "newline = CHR 0x0A"

subsection \<open>The simulation document (both programs)\<close>

record FieldMatcher =
  Matcher :: string
  Value :: string

text \<open>
  \<^verbatim>\<open>Body\<close> is a slice that the programs either never assign (nil, here \<open>None\<close>) or set
  to a literal. The two maps of a request go from a name to a slice of matchers; a nil
  map and an empty one read alike and are both the empty map here.
\<close>

record Request =
  req_Method :: "FieldMatcher list"
  req_Destination :: "FieldMatcher list"
  req_Path :: "FieldMatcher list"
  req_Body :: "FieldMatcher list option"
  req_Headers :: "string \<rightharpoonup> FieldMatcher list"
  req_Query :: "string \<rightharpoonup> FieldMatcher list"

record Response =
  resp_Status :: int
  resp_Body :: string
  resp_Headers :: "string \<rightharpoonup> string list"

record Pair =
  pair_Request :: Request
  pair_Response :: Response
  Labels :: "string list"

text \<open>The document, and what a run of \<^verbatim>\<open>har-to-hoverfly.go\<close> produces: in summary mode the
  text printed on the standard output, otherwise the document (which the JSON encoder
  then serialises).\<close>

record Simulation =
  sim_Pairs :: "Pair list"
  sim_Delays :: "string list"
  sim_SchemaVersion :: string

datatype result = Summary string | Document Simulation

text \<open>The composite literal \<^verbatim>\<open>FieldMatcher{Matcher: "exact", Value: v}\<close>.\<close>

definition exact :: "string \<Rightarrow> FieldMatcher" where
  "exact v = \<lparr>Matcher = ''exact'', Value = v\<rparr>"

text \<open>
  The matchers of a request, for stating properties of all of them: the members of the
  four slices and of every slice stored in the two maps.
\<close>

definition request_matchers :: "Request \<Rightarrow> FieldMatcher set" where
  "request_matchers r =
     set (req_Method r) \<union> set (req_Destination r) \<union> set (req_Path r)
     \<union> (case req_Body r of None \<Rightarrow> {} | Some body \<Rightarrow> set body)
     \<union> (\<Union>ms \<in> ran (req_Headers r). set ms)
     \<union> (\<Union>ms \<in> ran (req_Query r). set ms)"

subsection \<open>The archive and the flags\<close>

text \<open>The entries of \<^verbatim>\<open>har-to-hoverfly.go\<close>, whose \<^verbatim>\<open>HAR\<close> type has anonymous structs.\<close>

record HAR_Header =
  hdr_Name :: string
  hdr_Value :: string

record HAR_Request =
  har_Method :: string
  har_URL :: string
  har_Headers :: "HAR_Header list"
  har_PostData_Text :: string

record HAR_Response =
  har_Status :: int
  har_Response_Headers :: "HAR_Header list"
  har_Content_Text :: string

record HAR_Entry =
  har_Request :: HAR_Request
  har_Response :: HAR_Response

text \<open>The flags that \<^verbatim>\<open>main\<close> reads after \<^verbatim>\<open>flag.Parse()\<close>; \<^verbatim>\<open>--output\<close> only names the
  destination of the serialised document.\<close>

record Flags =
  maxResponseSize :: int
  skipNonText :: bool
  hostFilter :: string
  summarise :: bool

text \<open>The entries and the flags of the program with \<^verbatim>\<open>convertEntryToPair\<close>: the fields of
  an entry that the program reads (\<^verbatim>\<open>StartedDateTime\<close> and \<^verbatim>\<open>Time\<close> are decoded and
  never read).\<close>

record Entry_Request =
  entry_Method :: string
  entry_URL :: string

record Entry_Response =
  entry_Status :: int
  entry_MimeType :: string
  entry_Text :: string

record Entry =
  entry_Request :: Entry_Request
  entry_Response :: Entry_Response

record Flags_alt =
  sizeLimit :: int
  ignoreNonText :: bool
  allowedTypes :: string
  restrictHost :: string
  summarise_alt :: bool

text \<open>
  The cell of a summary column as the specification words it: the value itself when it
  has at most \<open>w\<close> bytes, otherwise a prefix of the value followed by the ellipsis marker,
  \<open>w\<close> bytes in all.
\<close>

definition spec_cell :: "nat \<Rightarrow> string \<Rightarrow> string" where
  "spec_cell w v = (if length v \<le> w then v else take (w - 3) v @ ''...'')"

subsection \<open>\<^verbatim>\<open>har-to-hoverfly.go\<close>\<close>

definition isTextContentType :: "library \<Rightarrow> string \<Rightarrow> bool" where
  "isTextContentType lib contentType =
     (let lower = ToLower lib contentType
      in Contains lower ''json'' \<or> Contains lower ''text'' \<or> Contains lower ''xml'')"

text \<open>
  The parameter \<^verbatim>\<open>max\<close> is \<open>mx\<close> here. \<^verbatim>\<open>max-3\<close> is computed only where
  \<open>3 < mx\<close>, so it cannot wrap around.
\<close>

definition truncate :: "string \<Rightarrow> int \<Rightarrow> panic + string" where
  "truncate s mx =
     (if int (length s) \<le> mx then Inr s
      else if mx \<le> 3 then slice_to s mx
      else (case slice_to s (mx - 3) of
              Inl p \<Rightarrow> Inl p
            | Inr t \<Rightarrow> Inr (t @ ''...'')))"

text \<open>The defaults: no size limit (\<open>-1\<close>), no substitution, no host filter, simulation mode.\<close>

definition Flags_default :: Flags where
  "Flags_default = \<lparr>maxResponseSize = - 1, skipNonText = False, hostFilter = [], summarise = False\<rparr>"

text \<open>The loop over \<^verbatim>\<open>r.Headers\<close> that fills \<^verbatim>\<open>reqHeaders\<close>.\<close>

fun reqHeaders_loop ::
  "HAR_Header list \<Rightarrow> (string \<rightharpoonup> FieldMatcher list) \<Rightarrow> (string \<rightharpoonup> FieldMatcher list)" where
  "reqHeaders_loop [] reqHeaders = reqHeaders"
| "reqHeaders_loop (h # hs) reqHeaders =
     reqHeaders_loop hs
       (reqHeaders(hdr_Name h \<mapsto> at reqHeaders (hdr_Name h) @ [exact (hdr_Value h)]))"

text \<open>
  The two nested loops over \<^verbatim>\<open>u.Query()\<close> that fill \<^verbatim>\<open>reqQuery\<close>: the inner one over the
  values of a key, the outer one over the entries of the map.
\<close>

fun reqQuery_values_loop ::
  "string \<Rightarrow> string list \<Rightarrow> (string \<rightharpoonup> FieldMatcher list) \<Rightarrow> (string \<rightharpoonup> FieldMatcher list)" where
  "reqQuery_values_loop key [] reqQuery = reqQuery"
| "reqQuery_values_loop key (v # vs) reqQuery =
     reqQuery_values_loop key vs (reqQuery(key \<mapsto> at reqQuery key @ [exact v]))"

fun reqQuery_loop ::
  "(string \<times> string list) list \<Rightarrow> (string \<rightharpoonup> FieldMatcher list) \<Rightarrow> (string \<rightharpoonup> FieldMatcher list)" where
  "reqQuery_loop [] reqQuery = reqQuery"
| "reqQuery_loop ((key, vals) # q) reqQuery =
     reqQuery_loop q (reqQuery_values_loop key vals reqQuery)"

text \<open>The loop over \<^verbatim>\<open>entry.Response.Headers\<close>; its state is \<^verbatim>\<open>contentType\<close> and
  \<^verbatim>\<open>headersMap\<close>.\<close>

fun respHeaders_loop ::
  "library \<Rightarrow> HAR_Header list \<Rightarrow> string \<times> (string \<rightharpoonup> string list)
     \<Rightarrow> string \<times> (string \<rightharpoonup> string list)" where
  "respHeaders_loop lib [] st = st"
| "respHeaders_loop lib (h # hs) (contentType, headersMap) =
     (let lower = ToLower lib (hdr_Name h)
      in respHeaders_loop lib hs
           (if lower = ''content-type'' then hdr_Value h else contentType,
            headersMap(hdr_Name h \<mapsto> at headersMap (hdr_Name h) @ [hdr_Value h])))"

text \<open>Lines 194 to 200: the two conditionals on \<^verbatim>\<open>responseBody\<close>, one after the other.\<close>

definition responseBody_policy :: "library \<Rightarrow> Flags \<Rightarrow> string \<Rightarrow> string \<Rightarrow> string" where
  "responseBody_policy lib f contentType text =
     (let responseBody = text;
          responseBody =
            (if maxResponseSize f \<ge> 0 \<and> int (length responseBody) > maxResponseSize f
             then [] else responseBody);
          responseBody =
            (if skipNonText f \<and> \<not> isTextContentType lib contentType
             then ''NON_TEXT_RESPONSE_SKIPPED'' else responseBody)
      in responseBody)"

text \<open>Lines 169 to 220: the pair built from an entry that passed the two \<^verbatim>\<open>continue\<close>s,
  \<open>u\<close> being its parsed URL.\<close>

definition main_pair :: "library \<Rightarrow> Flags \<Rightarrow> HAR_Entry \<Rightarrow> URL \<Rightarrow> Pair" where
  "main_pair lib f entry u =
     (let r = har_Request entry;
          reqHeaders = reqHeaders_loop (har_Headers r) Map.empty;
          reqQuery = reqQuery_loop (Query u) Map.empty;
          (contentType, headersMap) =
             respHeaders_loop lib (har_Response_Headers (har_Response entry)) ([], Map.empty);
          responseBody =
             responseBody_policy lib f contentType (har_Content_Text (har_Response entry));
          pair = \<lparr>pair_Request =
                    \<lparr>req_Method = [exact (har_Method r)],
                     req_Destination = [exact (Host u)],
                     req_Path = [exact (Path u)],
                     req_Body = None,
                     req_Headers = reqHeaders,
                     req_Query = reqQuery\<rparr>,
                  pair_Response =
                    \<lparr>resp_Status = har_Status (har_Response entry),
                     resp_Body = responseBody,
                     resp_Headers = headersMap\<rparr>,
                  Labels = []\<rparr>
      in if har_PostData_Text r \<noteq> []
         then pair\<lparr>pair_Request :=
                (pair_Request pair)\<lparr>req_Body := Some [exact (har_PostData_Text r)]\<rparr>\<rparr>
         else pair)"

text \<open>One round of the loop of lines 157 to 223; \<open>None\<close> is \<^verbatim>\<open>continue\<close>, \<open>Some pair\<close> is
  the pair that the round appends.\<close>

definition main_entry :: "library \<Rightarrow> Flags \<Rightarrow> HAR_Entry \<Rightarrow> Pair option" where
  "main_entry lib f entry =
     (case url_Parse lib (har_URL (har_Request entry)) of
        None \<Rightarrow> None
      | Some u \<Rightarrow>
          if hostFilter f \<noteq> [] \<and> Host u \<noteq> hostFilter f then None
          else Some (main_pair lib f entry u))"

fun main_loop :: "library \<Rightarrow> Flags \<Rightarrow> HAR_Entry list \<Rightarrow> Pair list \<Rightarrow> Pair list" where
  "main_loop lib f [] pairs = pairs"
| "main_loop lib f (entry # entries) pairs =
     (case main_entry lib f entry of
        None \<Rightarrow> main_loop lib f entries pairs
      | Some pair \<Rightarrow> main_loop lib f entries (pairs @ [pair]))"

text \<open>\<^verbatim>\<open>fmt.Sprintf("%-10s %-50s %-50s", method, path, query)\<close>.\<close>

definition Sprintf_row :: "library \<Rightarrow> string \<Rightarrow> string \<Rightarrow> string \<Rightarrow> string" where
  "Sprintf_row lib method path query =
     pad_right lib 10 method @ '' '' @ pad_right lib 50 path @ '' '' @ pad_right lib 50 query"

text \<open>One round of the loop of lines 127 to 141 on \<^verbatim>\<open>summaryMap\<close>, which the program ranges
  over afterwards; a round that hits \<^verbatim>\<open>continue\<close> returns the map as it was.\<close>

definition summarise_entry ::
  "library \<Rightarrow> Flags \<Rightarrow> HAR_Entry \<Rightarrow> (string \<times> string list) list
     \<Rightarrow> panic + (string \<times> string list) list" where
  "summarise_entry lib f entry summaryMap =
     (let r = har_Request entry
      in case url_Parse lib (har_URL r) of
           None \<Rightarrow> Inr summaryMap
         | Some u \<Rightarrow>
             if hostFilter f \<noteq> [] \<and> Host u \<noteq> hostFilter f then Inr summaryMap
             else (case truncate (har_Method r) 10 of
                     Inl p \<Rightarrow> Inl p
                   | Inr method \<Rightarrow>
                (case truncate (Path u) 50 of
                     Inl p \<Rightarrow> Inl p
                   | Inr path \<Rightarrow>
                (case truncate (RawQuery u) 50 of
                     Inl p \<Rightarrow> Inl p
                   | Inr query \<Rightarrow>
                       Inr (AList.update (Host u)
                              (at (map_of summaryMap) (Host u) @ [Sprintf_row lib method path query])
                              summaryMap)))))"

fun summarise_loop ::
  "library \<Rightarrow> Flags \<Rightarrow> HAR_Entry list \<Rightarrow> (string \<times> string list) list
     \<Rightarrow> panic + (string \<times> string list) list" where
  "summarise_loop lib f [] summaryMap = Inr summaryMap"
| "summarise_loop lib f (entry # entries) summaryMap =
     (case summarise_entry lib f entry summaryMap of
        Inl p \<Rightarrow> Inl p
      | Inr summaryMap' \<Rightarrow> summarise_loop lib f entries summaryMap')"

text \<open>
  Lines 143 to 148, what the program prints for one host: \<^verbatim>\<open>Printf("\nHOST: %s\n", host)\<close>,
  the column header, and after \<^verbatim>\<open>sort.Strings(summaries)\<close>, which orders strings byte by
  byte, one \<^verbatim>\<open>Println("  ", s)\<close> for each row: the two spaces, the space that \<^verbatim>\<open>Println\<close>
  puts between operands, the row and a line feed.
\<close>

definition print_host :: "library \<Rightarrow> string \<Rightarrow> string list \<Rightarrow> string" where
  "print_host lib host summaries =
     [newline] @ ''HOST: '' @ host @ [newline]
     @ ''  '' @ pad_right lib 10 ''METHOD'' @ '' '' @ pad_right lib 50 ''PATH'' @ '' ''
         @ pad_right lib 50 ''QUERY'' @ [newline]
     @ concat (map (\<lambda>s. ''  '' @ '' '' @ s @ [newline]) (sort summaries))"

text \<open>The loop of lines 142 to 149 over \<^verbatim>\<open>summaryMap\<close>.\<close>

fun print_summary :: "library \<Rightarrow> (string \<times> string list) list \<Rightarrow> string" where
  "print_summary lib [] = []"
| "print_summary lib ((host, summaries) # summaryMap) =
     print_host lib host summaries @ print_summary lib summaryMap"

text \<open>
  What \<^verbatim>\<open>main\<close> produces from the entries of the archive: in summary mode the printed
  text, otherwise the simulation document.
\<close>

definition main :: "library \<Rightarrow> Flags \<Rightarrow> HAR_Entry list \<Rightarrow> panic + result" where
  "main lib f entries =
     (if summarise f
      then (case summarise_loop lib f entries [] of
              Inl p \<Rightarrow> Inl p
            | Inr summaryMap \<Rightarrow> Inr (Summary (print_summary lib summaryMap)))
      else Inr (Document \<lparr>sim_Pairs = main_loop lib f entries [],
                          sim_Delays = [],
                          sim_SchemaVersion = ''v5.3''\<rparr>))"

subsection \<open>The program with \<^verbatim>\<open>convertEntryToPair\<close>\<close>

text \<open>The defaults of the flags.\<close>

definition allowedTypes_default :: string where
  "allowedTypes_default = ''json,xml,text/html,text/javascript''"

definition Flags_alt_default :: Flags_alt where
  "Flags_alt_default =
     \<lparr>sizeLimit = 0, ignoreNonText = False, allowedTypes = allowedTypes_default,
      restrictHost = [], summarise_alt = False\<rparr>"

text \<open>The loop of \<^verbatim>\<open>isTextContent\<close> over \<^verbatim>\<open>allowed\<close>, on the lower-cased MIME type.\<close>

fun isTextContent_loop :: "string \<Rightarrow> string list \<Rightarrow> bool" where
  "isTextContent_loop mimeType [] = False"
| "isTextContent_loop mimeType (substr # allowed) =
     (if Contains mimeType substr then True else isTextContent_loop mimeType allowed)"

definition isTextContent :: "library \<Rightarrow> string \<Rightarrow> string list \<Rightarrow> bool" where
  "isTextContent lib mimeType allowed = isTextContent_loop (ToLower lib mimeType) allowed"

definition parseURL :: "library \<Rightarrow> string \<Rightarrow> URL" where
  "parseURL lib raw = (case url_Parse lib raw of None \<Rightarrow> URL_zero | Some u \<Rightarrow> u)"

definition convertEntryToPair :: "library \<Rightarrow> Entry \<Rightarrow> int \<Rightarrow> string list \<Rightarrow> Pair" where
  "convertEntryToPair lib entry sizeLimit' allowedContentTypes =
     (let req = entry_Request entry;
          res = entry_Response entry;
          body = entry_Text res;
          body = (if sizeLimit' > 0 \<and> int (length body) > sizeLimit' then [] else body);
          reqURL = parseURL lib (entry_URL req);
          request = \<lparr>req_Method = [exact (entry_Method req)],
                     req_Destination = [exact (Host reqURL)],
                     req_Path = [exact (Path reqURL)],
                     req_Body = None,
                     req_Headers = Map.empty,
                     req_Query = Map.empty\<rparr>;
          response = \<lparr>resp_Status = entry_Status res,
                      resp_Body = body,
                      resp_Headers = [''Content-Type'' \<mapsto> [entry_MimeType res]]\<rparr>
      in \<lparr>pair_Request = request, pair_Response = response, Labels = [entry_Method req]\<rparr>)"

text \<open>
  One round of the loop of \<^verbatim>\<open>main\<close> on its state, the pairs of the document and the
  summary \<^verbatim>\<open>table\<close> (host, then path, then method), which the program ranges over
  afterwards; a round that hits the first or the second \<^verbatim>\<open>continue\<close> returns the state as
  it was.
\<close>

type_synonym table = "(string \<times> (string \<times> (string \<times> bool) list) list) list"

definition main_entry_alt ::
  "library \<Rightarrow> Flags_alt \<Rightarrow> string list \<Rightarrow> Entry \<Rightarrow> Pair list \<times> table \<Rightarrow> Pair list \<times> table" where
  "main_entry_alt lib f allowedContentTypes entry st =
     (let (pairs, table) = st;
          req = entry_Request entry;
          res = entry_Response entry;
          reqURL = parseURL lib (entry_URL req)
      in if restrictHost f \<noteq> [] \<and> \<not> Contains (entry_URL req) (restrictHost f) then st
         else let isText = isTextContent lib (entry_MimeType res) allowedContentTypes
              in if ignoreNonText f \<and> \<not> isText then st
                 else if summarise_alt f
                 then (let host = Host reqURL;
                           paths = at (map_of table) host;
                           methods = at (map_of paths) (Path reqURL)
                       in (pairs,
                           AList.update host
                             (AList.update (Path reqURL)
                                (AList.update (entry_Method req) True methods) paths)
                             table))
                 else (pairs @ [convertEntryToPair lib entry (sizeLimit f) allowedContentTypes],
                       table))"

fun main_loop_alt ::
  "library \<Rightarrow> Flags_alt \<Rightarrow> string list \<Rightarrow> Entry list \<Rightarrow> Pair list \<times> table \<Rightarrow> Pair list \<times> table" where
  "main_loop_alt lib f allowedContentTypes [] st = st"
| "main_loop_alt lib f allowedContentTypes (entry # entries) st =
     main_loop_alt lib f allowedContentTypes entries
       (main_entry_alt lib f allowedContentTypes entry st)"

text \<open>The state of \<^verbatim>\<open>main\<close> after the loop: the pairs of the document and the table.\<close>

definition main_alt :: "library \<Rightarrow> Flags_alt \<Rightarrow> Entry list \<Rightarrow> Pair list \<times> table" where
  "main_alt lib f entries =
     (let allowedContentTypes = Split (allowedTypes f) CHR '',''
      in main_loop_alt lib f allowedContentTypes entries ([], []))"

text \<open>
  \<^verbatim>\<open>max-3\<close> is computed whenever \<open>mx < len(s)\<close>. For \<open>mx\<close> within three of the least
  64-bit integer Go's subtraction wraps to a number above every length and the slice
  panics; here \<open>mx - 3\<close> is negative and the slice panics as well.
\<close>

definition truncate_alt :: "string \<Rightarrow> int \<Rightarrow> panic + string" where
  "truncate_alt s mx =
     (if int (length s) > mx
      then (case slice_to s (mx - 3) of
              Inl p \<Rightarrow> Inl p
            | Inr t \<Rightarrow> Inr (t @ ''...''))
      else Inr s)"

text \<open>\<^verbatim>\<open>fmt.Printf("%-30s %-10s %-50s %-50s\n", host, method, path, query)\<close>.\<close>

definition Printf_row_alt :: "library \<Rightarrow> string \<Rightarrow> string \<Rightarrow> string \<Rightarrow> string \<Rightarrow> string" where
  "Printf_row_alt lib host method path query =
     pad_right lib 30 host @ '' '' @ pad_right lib 10 method @ '' '' @ pad_right lib 50 path
       @ '' '' @ pad_right lib 50 query @ [newline]"

text \<open>
  The three nested loops of lines 146 to 152 over the table, innermost first. Each round
  of the innermost loop prints one row, after evaluating \<^verbatim>\<open>truncate(path, 50)\<close>; a panic
  there ends the run.
\<close>

fun print_methods_alt ::
  "library \<Rightarrow> string \<Rightarrow> string \<Rightarrow> (string \<times> bool) list \<Rightarrow> panic + string" where
  "print_methods_alt lib host path [] = Inr []"
| "print_methods_alt lib host path ((method, b) # methods) =
     (case truncate_alt path 50 of
        Inl p \<Rightarrow> Inl p
      | Inr cell \<Rightarrow>
          (case print_methods_alt lib host path methods of
             Inl p \<Rightarrow> Inl p
           | Inr out \<Rightarrow> Inr (Printf_row_alt lib host method cell [] @ out)))"

fun print_paths_alt ::
  "library \<Rightarrow> string \<Rightarrow> (string \<times> (string \<times> bool) list) list \<Rightarrow> panic + string" where
  "print_paths_alt lib host [] = Inr []"
| "print_paths_alt lib host ((path, methods) # paths) =
     (case print_methods_alt lib host path methods of
        Inl p \<Rightarrow> Inl p
      | Inr out \<Rightarrow>
          (case print_paths_alt lib host paths of
             Inl p \<Rightarrow> Inl p
           | Inr out' \<Rightarrow> Inr (out @ out')))"

fun print_table_alt :: "library \<Rightarrow> table \<Rightarrow> panic + string" where
  "print_table_alt lib [] = Inr []"
| "print_table_alt lib ((host, paths) # table) =
     (case print_paths_alt lib host paths of
        Inl p \<Rightarrow> Inl p
      | Inr out \<Rightarrow>
          (case print_table_alt lib table of
             Inl p \<Rightarrow> Inl p
           | Inr out' \<Rightarrow> Inr (out @ out')))"

text \<open>Lines 144 to 154: what \<^verbatim>\<open>main\<close> prints in summary mode, the column header and the
  rows of the table.\<close>

definition main_summary_alt :: "library \<Rightarrow> Flags_alt \<Rightarrow> Entry list \<Rightarrow> panic + string" where
  "main_summary_alt lib f entries =
     (case print_table_alt lib (snd (main_alt lib f entries)) of
        Inl p \<Rightarrow> Inl p
      | Inr out \<Rightarrow> Inr (Printf_row_alt lib ''HOST'' ''METHOD'' ''PATH'' ''QUERY'' @ out))"

subsection \<open>Sample archives\<close>

text \<open>
  The inputs of the examples below. \<open>sample_Parse\<close> is the table of what \<^verbatim>\<open>url.Parse\<close>
  and \<^verbatim>\<open>Query()\<close> return on the five URLs that the examples use: four absolute URLs, and
  \<^verbatim>\<open>:bad\<close>, which \<^verbatim>\<open>url.Parse\<close> rejects with the error "missing protocol scheme". No
  example applies it to any other string. Every string of the examples is made of ASCII
  bytes, so no example reaches the other two functions of \<open>sample_lib\<close>.
\<close>

definition sample_Parse :: "string \<Rightarrow> URL option" where
  "sample_Parse raw =
     (if raw = ''http://api.example.com/api/products?category=shoes&limit=5''
      then Some \<lparr>Host = ''api.example.com'', Path = ''/api/products'',
                 RawQuery = ''category=shoes&limit=5'',
                 Query = [(''category'', [''shoes'']), (''limit'', [''5''])]\<rparr>
      else if raw = ''http://api.example.com/api/shoe?tag=a&tag=b''
      then Some \<lparr>Host = ''api.example.com'', Path = ''/api/shoe'',
                 RawQuery = ''tag=a&tag=b'',
                 Query = [(''tag'', [''a'', ''b''])]\<rparr>
      else if raw = ''http://other.example.org/track?ref=api.example.com''
      then Some \<lparr>Host = ''other.example.org'', Path = ''/track'',
                 RawQuery = ''ref=api.example.com'',
                 Query = [(''ref'', [''api.example.com''])]\<rparr>
      else if raw = ''http://dav.example.com/repository/projects/har-to-hoverfly/trunk/README.md''
      then Some \<lparr>Host = ''dav.example.com'',
                 Path = ''/repository/projects/har-to-hoverfly/trunk/README.md'',
                 RawQuery = [], Query = []\<rparr>
      else if raw = '':bad'' then None
      else None)"

definition sample_lib :: library where
  "sample_lib =
     \<lparr>url_Parse = sample_Parse, unicode_ToLower = (\<lambda>s. s), utf8_RuneCountInString = length\<rparr>"

text \<open>The scenario of the specification: a GET of the product list, answered with status 200,
  \<^verbatim>\<open>Content-Type: text/plain\<close> and the body \<^verbatim>\<open>ok\<close>.\<close>

definition har_products :: HAR_Entry where
  "har_products =
     \<lparr>har_Request =
        \<lparr>har_Method = ''GET'',
         har_URL = ''http://api.example.com/api/products?category=shoes&limit=5'',
         har_Headers = [], har_PostData_Text = []\<rparr>,
      har_Response =
        \<lparr>har_Status = 200,
         har_Response_Headers = [\<lparr>hdr_Name = ''Content-Type'', hdr_Value = ''text/plain''\<rparr>],
         har_Content_Text = ''ok''\<rparr>\<rparr>"

text \<open>The same exchange answered with \<^verbatim>\<open>Content-Type: image/png\<close>.\<close>

definition har_image :: HAR_Entry where
  "har_image =
     har_products\<lparr>har_Response :=
       \<lparr>har_Status = 200,
        har_Response_Headers = [\<lparr>hdr_Name = ''Content-Type'', hdr_Value = ''image/png''\<rparr>],
        har_Content_Text = ''ok''\<rparr>\<rparr>"

text \<open>The same exchange answered without a \<^verbatim>\<open>Content-Type\<close> header.\<close>

definition har_untyped :: HAR_Entry where
  "har_untyped =
     har_products\<lparr>har_Response :=
       \<lparr>har_Status = 200,
        har_Response_Headers = [\<lparr>hdr_Name = ''Server'', hdr_Value = ''nginx''\<rparr>],
        har_Content_Text = ''ok''\<rparr>\<rparr>"

text \<open>A POST with a body, a header sent twice and a query key sent twice.\<close>

definition har_shoe :: HAR_Entry where
  "har_shoe =
     \<lparr>har_Request =
        \<lparr>har_Method = ''POST'',
         har_URL = ''http://api.example.com/api/shoe?tag=a&tag=b'',
         har_Headers = [\<lparr>hdr_Name = ''Accept'', hdr_Value = ''text/plain''\<rparr>,
                        \<lparr>hdr_Name = ''Cookie'', hdr_Value = ''a=1''\<rparr>,
                        \<lparr>hdr_Name = ''Accept'', hdr_Value = ''application/json''\<rparr>],
         har_PostData_Text = ''product=shirt''\<rparr>,
      har_Response =
        \<lparr>har_Status = 201,
         har_Response_Headers = [\<lparr>hdr_Name = ''Content-Type'', hdr_Value = ''application/json''\<rparr>],
         har_Content_Text = ''{}''\<rparr>\<rparr>"

text \<open>An entry whose URL does not parse.\<close>

definition har_bad :: HAR_Entry where
  "har_bad = har_products\<lparr>har_Request :=
     \<lparr>har_Method = ''GET'', har_URL = '':bad'', har_Headers = [], har_PostData_Text = []\<rparr>\<rparr>"

text \<open>A WebDAV request whose method has 15 bytes and whose path has 52.\<close>

definition har_dav :: HAR_Entry where
  "har_dav = har_products\<lparr>har_Request :=
     \<lparr>har_Method = ''VERSION-CONTROL'',
      har_URL = ''http://dav.example.com/repository/projects/har-to-hoverfly/trunk/README.md'',
      har_Headers = [], har_PostData_Text = []\<rparr>\<rparr>"

text \<open>Entries of the second program: the scenario of the specification; an entry whose URL
  does not parse; a request to another host that names \<^verbatim>\<open>api.example.com\<close> in its query;
  the scenario with an empty MIME type; and the WebDAV request.\<close>

definition entry_products :: Entry where
  "entry_products =
     \<lparr>entry_Request =
        \<lparr>entry_Method = ''GET'',
         entry_URL = ''http://api.example.com/api/products?category=shoes&limit=5''\<rparr>,
      entry_Response =
        \<lparr>entry_Status = 200, entry_MimeType = ''text/plain'', entry_Text = ''ok''\<rparr>\<rparr>"

definition entry_bad :: Entry where
  "entry_bad = entry_products\<lparr>entry_Request :=
     \<lparr>entry_Method = ''GET'', entry_URL = '':bad''\<rparr>\<rparr>"

definition entry_other :: Entry where
  "entry_other = entry_products\<lparr>entry_Request :=
     \<lparr>entry_Method = ''GET'',
      entry_URL = ''http://other.example.org/track?ref=api.example.com''\<rparr>\<rparr>"

definition entry_untyped :: Entry where
  "entry_untyped = entry_products\<lparr>entry_Response :=
     \<lparr>entry_Status = 200, entry_MimeType = [], entry_Text = ''ok''\<rparr>\<rparr>"

definition entry_dav :: Entry where
  "entry_dav = entry_products\<lparr>entry_Request :=
     \<lparr>entry_Method = ''VERSION-CONTROL'',
      entry_URL = ''http://dav.example.com/repository/projects/har-to-hoverfly/trunk/README.md''\<rparr>\<rparr>"

section \<open>Properties\<close>

lemma Contains_iff_sublist: "Contains s substr \<longleftrightarrow> sublist substr s"
  by (induction s) (auto simp: sublist_Cons_right)

subsection \<open>The library on ASCII strings\<close>

lemma ToLower_Nil: "ToLower lib [] = []"
  by (simp add: ToLower_def isASCII_def)

lemma ToLower_ASCII: "isASCII s \<Longrightarrow> ToLower lib s = map lower_byte s"
  by (simp add: ToLower_def)

lemma ToLower_not_ASCII: "\<not> isASCII s \<Longrightarrow> ToLower lib s = unicode_ToLower lib s"
  by (simp add: ToLower_def)

lemma pad_right_ASCII:
  "isASCII s \<Longrightarrow> pad_right lib w s = s @ replicate (w - length s) CHR '' ''"
  by (simp add: pad_right_def RuneCountInString_def)

subsection \<open>The loops in closed form\<close>

lemma at_upd: "at (m(k \<mapsto> vs)) k' = (if k' = k then vs else at m k')"
  by (simp add: at_def)

lemma at_empty: "at Map.empty k = []"
  by (simp add: at_def)

lemma at_Some: "m k = Some vs \<Longrightarrow> at m k = vs"
  by (simp add: at_def)

lemma main_loop_map_filter:
  "main_loop lib f entries pairs = pairs @ List.map_filter (main_entry lib f) entries"
  by (induction entries arbitrary: pairs) (auto split: option.splits)

lemma main_loop_append:
  "main_loop lib f (es1 @ es2) pairs = main_loop lib f es2 (main_loop lib f es1 pairs)"
  by (induction es1 arbitrary: pairs) (auto split: option.splits)

lemma summarise_loop_append:
  "summarise_loop lib f (es1 @ es2) m =
     (case summarise_loop lib f es1 m of Inl p \<Rightarrow> Inl p | Inr m' \<Rightarrow> summarise_loop lib f es2 m')"
  by (induction es1 arbitrary: m) (auto split: sum.splits)

lemma reqHeaders_loop_at:
  "at (reqHeaders_loop hs m) name =
     at m name @ map (\<lambda>h. exact (hdr_Value h)) (filter (\<lambda>h. hdr_Name h = name) hs)"
  by (induction hs arbitrary: m) (auto simp: at_upd)

lemma reqHeaders_loop_None:
  "reqHeaders_loop hs m name = None \<longleftrightarrow> m name = None \<and> name \<notin> hdr_Name ` set hs"
  by (induction hs arbitrary: m) auto

lemma reqQuery_values_loop_at:
  "at (reqQuery_values_loop key vs m) k = at m k @ (if k = key then map exact vs else [])"
  by (induction vs arbitrary: m) (auto simp: at_upd)

lemma reqQuery_values_loop_None:
  "reqQuery_values_loop key vs m k = None \<longleftrightarrow> m k = None \<and> (k = key \<longrightarrow> vs = [])"
  by (induction vs arbitrary: m) auto

lemma reqQuery_loop_at:
  "at (reqQuery_loop q m) k =
     at m k @ map exact (concat (map snd (filter (\<lambda>kv. fst kv = k) q)))"
  by (induction q arbitrary: m) (auto simp: reqQuery_values_loop_at)

lemma respHeaders_loop_contentType:
  "\<forall>h \<in> set hs. ToLower lib (hdr_Name h) \<noteq> ''content-type'' \<Longrightarrow>
     fst (respHeaders_loop lib hs (ct, m)) = ct"
  by (induction hs arbitrary: m) (auto simp: Let_def)

lemma main_pair_resp_Body:
  "resp_Body (pair_Response (main_pair lib f entry u)) =
     responseBody_policy lib f
       (fst (respHeaders_loop lib (har_Response_Headers (har_Response entry)) ([], Map.empty)))
       (har_Content_Text (har_Response entry))"
  by (simp add: main_pair_def Let_def split: prod.splits)

lemma main_pair_Labels: "Labels (main_pair lib f entry u) = []"
  by (simp add: main_pair_def Let_def split: prod.splits)

lemma main_pair_req_Body:
  "req_Body (pair_Request (main_pair lib f entry u)) =
     (if har_PostData_Text (har_Request entry) \<noteq> []
      then Some [exact (har_PostData_Text (har_Request entry))] else None)"
  by (simp add: main_pair_def Let_def split: prod.splits)

lemma main_pair_req_Headers:
  "req_Headers (pair_Request (main_pair lib f entry u)) =
     reqHeaders_loop (har_Headers (har_Request entry)) Map.empty"
  by (simp add: main_pair_def Let_def split: prod.splits)

lemma main_pair_req_Query:
  "req_Query (pair_Request (main_pair lib f entry u)) = reqQuery_loop (Query u) Map.empty"
  by (simp add: main_pair_def Let_def split: prod.splits)

lemma main_pair_req_single:
  "req_Method (pair_Request (main_pair lib f entry u)) = [exact (har_Method (har_Request entry))]"
  "req_Destination (pair_Request (main_pair lib f entry u)) = [exact (Host u)]"
  "req_Path (pair_Request (main_pair lib f entry u)) = [exact (Path u)]"
  by (simp_all add: main_pair_def Let_def split: prod.splits)

lemma main_entry_Some:
  "main_entry lib f entry = Some pair \<longleftrightarrow>
     (\<exists>u. url_Parse lib (har_URL (har_Request entry)) = Some u
          \<and> (hostFilter f = [] \<or> Host u = hostFilter f) \<and> pair = main_pair lib f entry u)"
  by (auto simp: main_entry_def split: option.splits)

lemma isTextContent_loop_iff:
  "isTextContent_loop mimeType allowed \<longleftrightarrow> (\<exists>substr \<in> set allowed. Contains mimeType substr)"
  by (induction allowed) auto

lemma main_loop_alt_pairs:
  "fst (main_loop_alt lib f allowed entries (pairs, t)) =
     pairs @ (if summarise_alt f then []
              else map (\<lambda>e. convertEntryToPair lib e (sizeLimit f) allowed)
                     (filter (\<lambda>e. (restrictHost f = [] \<or> Contains (entry_URL (entry_Request e)) (restrictHost f))
                                 \<and> (ignoreNonText f \<longrightarrow> isTextContent lib (entry_MimeType (entry_Response e)) allowed))
                        entries))"
  by (induction entries arbitrary: pairs t) (auto simp: main_entry_alt_def Let_def)

lemma main_loop_set:
  "pair \<in> set (main_loop lib f entries pairs) \<longleftrightarrow>
     pair \<in> set pairs \<or> (\<exists>e \<in> set entries. main_entry lib f e = Some pair)"
  by (induction entries arbitrary: pairs) (auto split: option.splits)

text \<open>The cut of both \<^verbatim>\<open>truncate\<close> functions at a width of at least four is the cell of the
  specification; neither panics there.\<close>

lemma nat_int_minus_3: "nat (int w - 3) = w - 3"
  by arith

lemma truncate_spec_cell: "3 < w \<Longrightarrow> truncate v (int w) = Inr (spec_cell w v)"
  by (auto simp: truncate_def slice_to_def spec_cell_def nat_int_minus_3)

lemma truncate_alt_spec_cell: "3 \<le> w \<Longrightarrow> truncate_alt v (int w) = Inr (spec_cell w v)"
  by (auto simp: truncate_alt_def slice_to_def spec_cell_def nat_int_minus_3)

lemma length_spec_cell: "3 \<le> w \<Longrightarrow> length (spec_cell w v) \<le> w"
  by (auto simp: spec_cell_def)

lemma print_methods_alt_closed:
  "print_methods_alt lib host path methods =
     Inr (concat (map (\<lambda>(method, b). Printf_row_alt lib host method (spec_cell 50 path) []) methods))"
  using truncate_alt_spec_cell [of 50 path]
  by (induction methods) auto

lemma print_paths_alt_closed:
  "print_paths_alt lib host paths =
     Inr (concat (map (\<lambda>(path, methods).
            concat (map (\<lambda>(method, b). Printf_row_alt lib host method (spec_cell 50 path) []) methods))
          paths))"
  by (induction paths) (auto simp: print_methods_alt_closed)

lemma print_table_alt_closed:
  "print_table_alt lib table =
     Inr (concat (map (\<lambda>(host, paths). concat (map (\<lambda>(path, methods).
            concat (map (\<lambda>(method, b). Printf_row_alt lib host method (spec_cell 50 path) []) methods))
          paths)) table))"
  by (induction table) (auto simp: print_paths_alt_closed)

text \<open>Unfolding the sample inputs, evaluating \<^verbatim>\<open>main\<close> of \<^verbatim>\<open>har-to-hoverfly.go\<close> on them,
  and evaluating the printing code.\<close>

lemmas sample_defs = sample_lib_def sample_Parse_def har_products_def har_image_def
  har_untyped_def har_shoe_def har_bad_def har_dav_def entry_products_def entry_bad_def
  entry_other_def entry_untyped_def entry_dav_def Flags_default_def Flags_alt_default_def
  allowedTypes_default_def

lemmas eval_defs = main_entry_def main_pair_def responseBody_policy_def isTextContentType_def
  ToLower_def isASCII_def lower_byte_def exact_def at_def Let_def

lemmas print_defs = Sprintf_row_def Printf_row_alt_def pad_right_def RuneCountInString_def
  isASCII_def newline_def

subsection \<open>The scenarios of the specification\<close>

text \<open>
  The one-entry archive of the specification, run through \<^verbatim>\<open>main\<close> of
  \<^verbatim>\<open>har-to-hoverfly.go\<close> with the default flags; a two-entry archive in summary mode,
  whose rows come out sorted; and the one-entry archive run through the second program.
\<close>

lemma scenario_document:
  "main sample_lib Flags_default [har_products] =
     Inr (Document
       \<lparr>sim_Pairs =
          [\<lparr>pair_Request =
              \<lparr>req_Method = [exact ''GET''],
               req_Destination = [exact ''api.example.com''],
               req_Path = [exact ''/api/products''],
               req_Body = None,
               req_Headers = Map.empty,
               req_Query = [''category'' \<mapsto> [exact ''shoes''], ''limit'' \<mapsto> [exact ''5'']]\<rparr>,
            pair_Response =
              \<lparr>resp_Status = 200, resp_Body = ''ok'',
               resp_Headers = [''Content-Type'' \<mapsto> [''text/plain'']]\<rparr>,
            Labels = []\<rparr>],
        sim_Delays = [],
        sim_SchemaVersion = ''v5.3''\<rparr>)"
  by (simp add: main_def sample_defs eval_defs)

lemma scenario_summary:
  "main sample_lib (Flags_default\<lparr>summarise := True\<rparr>) [har_shoe, har_products] =
     Inr (Summary
       ([newline] @ ''HOST: api.example.com'' @ [newline]
        @ ''  METHOD'' @ replicate 4 CHR '' '' @ '' PATH'' @ replicate 46 CHR '' ''
        @ '' QUERY'' @ replicate 45 CHR '' '' @ [newline]
        @ ''   GET'' @ replicate 7 CHR '' '' @ '' /api/products'' @ replicate 37 CHR '' ''
        @ '' category=shoes&limit=5'' @ replicate 28 CHR '' '' @ [newline]
        @ ''   POST'' @ replicate 6 CHR '' '' @ '' /api/shoe'' @ replicate 41 CHR '' ''
        @ '' tag=a&tag=b'' @ replicate 39 CHR '' '' @ [newline]))"
  by (simp add: main_def summarise_entry_def truncate_def print_host_def sample_defs print_defs at_def)

lemma scenario_document_alt:
  "main_alt sample_lib Flags_alt_default [entry_products] =
     ([\<lparr>pair_Request =
              \<lparr>req_Method = [exact ''GET''],
               req_Destination = [exact ''api.example.com''],
               req_Path = [exact ''/api/products''],
               req_Body = None,
               req_Headers = Map.empty,
               req_Query = Map.empty\<rparr>,
            pair_Response =
              \<lparr>resp_Status = 200, resp_Body = ''ok'',
               resp_Headers = [''Content-Type'' \<mapsto> [''text/plain'']]\<rparr>,
            Labels = [''GET'']\<rparr>], [])"
  by (simp add: main_alt_def main_entry_alt_def convertEntryToPair_def parseURL_def
        isTextContent_def ToLower_def isASCII_def lower_byte_def sample_defs Let_def)

subsection \<open>The cells of the summary\<close>

text \<open>Every row stored for a host is printed whole by \<^verbatim>\<open>har-to-hoverfly.go\<close>, after the three
  spaces of \<^verbatim>\<open>Println\<close> and before a line feed.\<close>

lemma sublist_concat_map:
  "x \<in> set xs \<Longrightarrow> sublist (g x) (concat (map g xs))"
proof -
  assume "x \<in> set xs"
  then obtain ys zs where "xs = ys @ x # zs"
    by (auto dest: split_list)
  then have "concat (map g xs) = concat (map g ys) @ g x @ concat (map g zs)"
    by simp
  then show ?thesis
    unfolding sublist_def by blast
qed

lemma print_host_row:
  assumes "row \<in> set summaries"
  shows "sublist (''   '' @ row @ [newline]) (print_host lib host summaries)"
proof -
  from assms have "row \<in> set (sort summaries)" by simp
  then have "sublist (''  '' @ '' '' @ row @ [newline])
               (concat (map (\<lambda>s. ''  '' @ '' '' @ s @ [newline]) (sort summaries)))"
    by (rule sublist_concat_map)
  then have "sublist (''   '' @ row @ [newline])
               (concat (map (\<lambda>s. ''  '' @ '' '' @ s @ [newline]) (sort summaries)))"
    by simp
  then obtain a b where
    "concat (map (\<lambda>s. ''  '' @ '' '' @ s @ [newline]) (sort summaries))
       = a @ (''   '' @ row @ [newline]) @ b"
    unfolding sublist_def by blast
  then have "print_host lib host summaries =
      ([newline] @ ''HOST: '' @ host @ [newline]
       @ ''  '' @ pad_right lib 10 ''METHOD'' @ '' '' @ pad_right lib 50 ''PATH'' @ '' ''
       @ pad_right lib 50 ''QUERY'' @ [newline] @ a) @ (''   '' @ row @ [newline]) @ b"
    by (simp add: print_host_def)
  then show ?thesis
    unfolding sublist_def by blast
qed

lemma print_summary_row:
  assumes "(host, summaries) \<in> set summaryMap" and "row \<in> set summaries"
  shows "sublist (''   '' @ row @ [newline]) (print_summary lib summaryMap)"
  using assms
proof (induction summaryMap)
  case Nil
  then show ?case by simp
next
  case (Cons hs summaryMap)
  obtain host' summaries' where hs: "hs = (host', summaries')" by (cases hs)
  show ?case
  proof (cases "(host, summaries) = hs")
    case True
    with hs Cons.prems(2) have "row \<in> set summaries'" by simp
    then have "sublist (''   '' @ row @ [newline]) (print_host lib host' summaries')"
      by (rule print_host_row)
    then show ?thesis
      by (simp add: hs sublist_append)
  next
    case False
    with Cons have "sublist (''   '' @ row @ [newline]) (print_summary lib summaryMap)"
      by auto
    then show ?thesis
      by (simp add: hs sublist_append)
  qed
qed

text \<open>
  Claim C9, as the claim states it, fails in the second program, which passes only the
  path through \<^verbatim>\<open>truncate\<close>: in the summary of an archive with one \<^verbatim>\<open>VERSION-CONTROL\<close>
  request, the method, of 15 bytes, stands whole in its column of width 10.
\<close>

theorem uncut_method_counterexample:
  "length ''VERSION-CONTROL'' > 10
   \<and> main_summary_alt sample_lib (Flags_alt_default\<lparr>summarise_alt := True\<rparr>) [entry_dav] =
     Inr (''HOST'' @ replicate 26 CHR '' '' @ '' METHOD'' @ replicate 4 CHR '' ''
          @ '' PATH'' @ replicate 46 CHR '' '' @ '' QUERY'' @ replicate 45 CHR '' '' @ [newline]
          @ ''dav.example.com'' @ replicate 15 CHR '' '' @ '' VERSION-CONTROL''
          @ '' /repository/projects/har-to-hoverfly/trunk/READ...''
          @ '' '' @ replicate 50 CHR '' '' @ [newline])"
  by (simp add: main_summary_alt_def main_alt_def main_entry_alt_def parseURL_def
        isTextContent_def ToLower_def lower_byte_def truncate_alt_def slice_to_def
        sample_defs print_defs at_def Let_def)

text \<open>
  Claim C9, amended. In \<^verbatim>\<open>har-to-hoverfly.go\<close> every row of the summary is made of three
  cells, for the method at width 10 and for the path and the query at width 50: each cell
  is the value itself when the value has at most as many bytes as the width, and otherwise
  the first bytes of the value followed by three dots, never more bytes than the width;
  the cell is then padded with spaces to the width, counted in code points, the cells are
  joined by single spaces, and the row is printed whole. In the second program only the
  path, at width 50, is cut in this way; the host and the method are padded to the widths
  30 and 10 and never cut, and the query cell is always empty. At the widths 10 and 50
  neither \<^verbatim>\<open>truncate\<close> panics and both return the cell just described, which never has more
  bytes than the width.
\<close>

theorem summary_cells:
  "(url_Parse lib (har_URL (har_Request entry)) = Some u
      \<and> (hostFilter f = [] \<or> Host u = hostFilter f)
    \<longrightarrow> summarise_entry lib f entry summaryMap =
          Inr (AList.update (Host u)
                 (at (map_of summaryMap) (Host u) @
                    [pad_right lib 10 (spec_cell 10 (har_Method (har_Request entry))) @ '' ''
                     @ pad_right lib 50 (spec_cell 50 (Path u)) @ '' ''
                     @ pad_right lib 50 (spec_cell 50 (RawQuery u))])
                 summaryMap))
   \<and> ((host, summaries) \<in> set summaryMap \<and> row \<in> set summaries
    \<longrightarrow> sublist (''   '' @ row @ [newline]) (print_summary lib summaryMap))
   \<and> print_table_alt lib table =
        Inr (concat (map (\<lambda>(host, paths). concat (map (\<lambda>(path, methods). concat (map (\<lambda>(method, b).
               pad_right lib 30 host @ '' '' @ pad_right lib 10 method @ '' ''
               @ pad_right lib 50 (spec_cell 50 path) @ '' '' @ pad_right lib 50 [] @ [newline])
             methods)) paths)) table))
   \<and> (w = 10 \<or> w = 50 \<longrightarrow> truncate v (int w) = Inr (spec_cell w v)
                                \<and> truncate_alt v (int w) = Inr (spec_cell w v)
                                \<and> length (spec_cell w v) \<le> w)"
proof -
  have rows: "url_Parse lib (har_URL (har_Request entry)) = Some u
      \<and> (hostFilter f = [] \<or> Host u = hostFilter f)
    \<longrightarrow> summarise_entry lib f entry summaryMap =
          Inr (AList.update (Host u)
                 (at (map_of summaryMap) (Host u) @
                    [pad_right lib 10 (spec_cell 10 (har_Method (har_Request entry))) @ '' ''
                     @ pad_right lib 50 (spec_cell 50 (Path u)) @ '' ''
                     @ pad_right lib 50 (spec_cell 50 (RawQuery u))])
                 summaryMap)"
    using truncate_spec_cell [of 10 "har_Method (har_Request entry)"]
      truncate_spec_cell [of 50 "Path u"] truncate_spec_cell [of 50 "RawQuery u"]
    by (auto simp: summarise_entry_def Sprintf_row_def)
  have printed: "(host, summaries) \<in> set summaryMap \<and> row \<in> set summaries
    \<longrightarrow> sublist (''   '' @ row @ [newline]) (print_summary lib summaryMap)"
    using print_summary_row [of host summaries summaryMap row lib] by blast
  have cut: "w = 10 \<or> w = 50 \<longrightarrow> truncate v (int w) = Inr (spec_cell w v)
                                \<and> truncate_alt v (int w) = Inr (spec_cell w v)
                                \<and> length (spec_cell w v) \<le> w"
    using truncate_spec_cell [of 10 v] truncate_spec_cell [of 50 v]
      truncate_alt_spec_cell [of 10 v] truncate_alt_spec_cell [of 50 v]
    by (auto simp: length_spec_cell)
  from rows printed cut show ?thesis
    by (simp only: print_table_alt_closed Printf_row_alt_def simp_thms)
qed

theorem summary_cells_witness:
  "summarise_entry sample_lib Flags_default har_dav [] =
     Inr [(''dav.example.com'',
           [''VERSION...'' @ '' /repository/projects/har-to-hoverfly/trunk/READ...'' @ '' ''
            @ replicate 50 CHR '' ''])]
   \<and> sublist (''   row-1'' @ [newline])
        (print_summary sample_lib [(''dav.example.com'', [''row-2'', ''row-1''])])
   \<and> print_table_alt sample_lib [(''dav.example.com'', [(''/trunk'', [(''VERSION-CONTROL'', True)])])] =
       Inr (''dav.example.com'' @ replicate 15 CHR '' '' @ '' VERSION-CONTROL''
            @ '' /trunk'' @ replicate 44 CHR '' '' @ '' '' @ replicate 50 CHR '' '' @ [newline])
   \<and> truncate ''VERSION-CONTROL'' 10 = Inr ''VERSION...''"
proof -
  let ?u = "\<lparr>Host = ''dav.example.com'',
             Path = ''/repository/projects/har-to-hoverfly/trunk/README.md'',
             RawQuery = [], Query = []\<rparr>"
  have parsed: "url_Parse sample_lib (har_URL (har_Request har_dav)) = Some ?u"
    and passes: "hostFilter Flags_default = [] \<or> Host ?u = hostFilter Flags_default"
    by (simp_all add: sample_defs)
  note inst = summary_cells [where lib = sample_lib and f = Flags_default and entry = har_dav
      and u = ?u and summaryMap = "[]"]
  have one: "summarise_entry sample_lib Flags_default har_dav [] =
     Inr [(''dav.example.com'',
           [''VERSION...'' @ '' /repository/projects/har-to-hoverfly/trunk/READ...'' @ '' ''
            @ replicate 50 CHR '' ''])]"
    using inst [THEN conjunct1, rule_format, OF conjI, OF parsed passes]
    by (simp add: spec_cell_def print_defs at_def har_dav_def har_products_def)
  have two: "sublist (''   row-1'' @ [newline])
        (print_summary sample_lib [(''dav.example.com'', [''row-2'', ''row-1''])])"
    using summary_cells [where summaryMap = "[(''dav.example.com'', [''row-2'', ''row-1''])]"
        and host = "''dav.example.com''" and summaries = "[''row-2'', ''row-1'']"
        and row = "''row-1''" and lib = sample_lib, THEN conjunct2, THEN conjunct1]
    by simp
  have three: "print_table_alt sample_lib
        [(''dav.example.com'', [(''/trunk'', [(''VERSION-CONTROL'', True)])])] =
       Inr (''dav.example.com'' @ replicate 15 CHR '' '' @ '' VERSION-CONTROL''
            @ '' /trunk'' @ replicate 44 CHR '' '' @ '' '' @ replicate 50 CHR '' '' @ [newline])"
    by (simp add: summary_cells [THEN conjunct2, THEN conjunct2, THEN conjunct1]
          spec_cell_def print_defs)
  have w: "(10::nat) = 10 \<or> (10::nat) = 50" by simp
  have four: "truncate ''VERSION-CONTROL'' 10 = Inr ''VERSION...''"
    using summary_cells [where w = 10 and v = "''VERSION-CONTROL''",
        THEN conjunct2, THEN conjunct2, THEN conjunct2, rule_format, OF w]
    by (simp add: spec_cell_def)
  from one two three four show ?thesis by blast
qed

subsection \<open>The response body\<close>

text \<open>
  Claim C1, as the claim states it, fails in \<^verbatim>\<open>har-to-hoverfly.go\<close>: with the limit 1 and
  \<^verbatim>\<open>--skip-non-text\<close>, the two-byte body of an \<^verbatim>\<open>image/png\<close> response is over the limit and
  the emitted body is the sentinel, not the empty string.
\<close>

theorem oversize_non_text_counterexample:
  "int (length (har_Content_Text (har_Response har_image))) > 1 \<and>
   map (\<lambda>pair. resp_Body (pair_Response pair))
     (main_loop sample_lib (Flags_default\<lparr>maxResponseSize := 1, skipNonText := True\<rparr>)
        [har_image] [])
   = [''NON_TEXT_RESPONSE_SKIPPED'']"
  by (simp add: sample_defs eval_defs)

text \<open>
  Claim C1, amended. In \<^verbatim>\<open>har-to-hoverfly.go\<close> the two conditionals run one after the other
  and the second overrides the first: for an included entry, with a limit configured, the
  substitution flag set and a body longer than the limit, the emitted body is the empty
  string when the content type is text-like and the sentinel when it is not. In the second
  program, which has no substitution, a body longer than a configured (positive) limit is
  emitted as the empty string.
\<close>

theorem oversize_body:
  "(main_entry lib f entry = Some pair \<and> 0 \<le> maxResponseSize f \<and> skipNonText f
      \<and> int (length (har_Content_Text (har_Response entry))) > maxResponseSize f
    \<longrightarrow> resp_Body (pair_Response pair) =
          (if isTextContentType lib
                (fst (respHeaders_loop lib (har_Response_Headers (har_Response entry)) ([], Map.empty)))
           then [] else ''NON_TEXT_RESPONSE_SKIPPED''))
   \<and> (0 < lim \<and> int (length (entry_Text (entry_Response e))) > lim
    \<longrightarrow> resp_Body (pair_Response (convertEntryToPair lib' e lim allowed)) = [])"
  by (auto simp: main_entry_Some main_pair_resp_Body responseBody_policy_def
        convertEntryToPair_def Let_def)

theorem oversize_body_witness:
  "(\<exists>pair. main_entry sample_lib (Flags_default\<lparr>maxResponseSize := 1, skipNonText := True\<rparr>)
             har_products = Some pair
        \<and> resp_Body (pair_Response pair) = [])
   \<and> resp_Body (pair_Response (convertEntryToPair sample_lib entry_products 1 [])) = []"
proof -
  let ?f = "Flags_default\<lparr>maxResponseSize := 1, skipNonText := True\<rparr>"
  obtain p where a: "main_entry sample_lib ?f har_products = Some p"
    by (simp add: main_entry_def sample_defs)
  have b: "0 \<le> maxResponseSize ?f" "skipNonText ?f"
    "int (length (har_Content_Text (har_Response har_products))) > maxResponseSize ?f"
    by (simp_all add: sample_defs)
  have c: "isTextContentType sample_lib
     (fst (respHeaders_loop sample_lib (har_Response_Headers (har_Response har_products)) ([], Map.empty)))"
    by (simp add: sample_defs eval_defs)
  have d: "(0::int) < 1" "int (length (entry_Text (entry_Response entry_products))) > 1"
    by (simp_all add: sample_defs)
  from oversize_body [of sample_lib ?f har_products p 1 entry_products sample_lib "[]"] a b c d
  show ?thesis by simp
qed

subsection \<open>Labels and the request body\<close>

text \<open>
  Claim C2, as the claim states it, fails in \<^verbatim>\<open>har-to-hoverfly.go\<close>, which builds every
  pair with \<^verbatim>\<open>Labels: []string{}\<close>: the pair of the GET of the scenario has no label.
\<close>

theorem labels_counterexample:
  "map Labels (main_loop sample_lib Flags_default [har_products] []) = [[]]
   \<and> har_Method (har_Request har_products) = ''GET''"
  by (simp add: sample_defs eval_defs)

text \<open>
  Claim C2, amended. Every pair in the document of the second program is the result of
  \<^verbatim>\<open>convertEntryToPair\<close> on an entry of the archive and its label list is the singleton of that
  entry's request method; every pair in the document of \<^verbatim>\<open>har-to-hoverfly.go\<close> has the empty
  label list.
\<close>

theorem labels_of_pairs:
  "(pair \<in> set (fst (main_alt lib f entries))
      \<longrightarrow> (\<exists>e \<in> set entries.
              pair = convertEntryToPair lib e (sizeLimit f) (Split (allowedTypes f) CHR '','')
              \<and> Labels pair = [entry_Method (entry_Request e)]))
   \<and> (pair' \<in> set (main_loop lib' f' entries' []) \<longrightarrow> Labels pair' = [])"
  by (auto simp: main_alt_def main_loop_alt_pairs main_loop_set
        main_entry_Some main_pair_Labels convertEntryToPair_def Let_def)

theorem labels_of_pairs_witness:
  "map Labels (fst (main_alt sample_lib Flags_alt_default [entry_products])) = [[''GET'']]"
proof -
  let ?out = "fst (main_alt sample_lib Flags_alt_default [entry_products])"
  have one: "?out = [convertEntryToPair sample_lib entry_products 0
                       (Split allowedTypes_default CHR '','')]"
    by (simp add: main_alt_def main_loop_alt_pairs Flags_alt_default_def
          del: main_loop_alt.simps)
  then have "hd ?out \<in> set ?out" by simp
  from labels_of_pairs [THEN conjunct1, rule_format, OF this]
  have "Labels (hd ?out) = [entry_Method (entry_Request entry_products)]" by auto
  then have "Labels (hd ?out) = [''GET'']" by (simp add: entry_products_def)
  with one show ?thesis by simp
qed

text \<open>
  Claim C7. For an included entry of \<^verbatim>\<open>har-to-hoverfly.go\<close>, the request body of the pair is
  the one-element list of the exact matcher on the post-data text when that text is not
  empty, and is nil (absent, not an empty list) when it is empty.
\<close>

theorem request_body_matcher:
  assumes "main_entry lib f entry = Some pair"
  shows "req_Body (pair_Request pair) =
     (if har_PostData_Text (har_Request entry) \<noteq> []
      then Some [\<lparr>Matcher = ''exact'', Value = har_PostData_Text (har_Request entry)\<rparr>]
      else None)"
  using assms by (auto simp: main_entry_Some main_pair_req_Body exact_def)

theorem request_body_matcher_witness:
  "(\<exists>pair. main_entry sample_lib Flags_default har_shoe = Some pair
       \<and> req_Body (pair_Request pair) = Some [\<lparr>Matcher = ''exact'', Value = ''product=shirt''\<rparr>])
   \<and> (\<exists>pair. main_entry sample_lib Flags_default har_products = Some pair
       \<and> req_Body (pair_Request pair) = None)"
proof -
  obtain p where p: "main_entry sample_lib Flags_default har_shoe = Some p"
    by (simp add: main_entry_def sample_defs)
  obtain q where q: "main_entry sample_lib Flags_default har_products = Some q"
    by (simp add: main_entry_def sample_defs)
  from request_body_matcher [OF p] request_body_matcher [OF q] p q
  show ?thesis by (simp add: har_shoe_def har_products_def)
qed

subsection \<open>Text and non-text content types\<close>

text \<open>
  Claim C4, as the claim states it, fails in the second program: its default allowed types
  are \<^verbatim>\<open>json,xml,text/html,text/javascript\<close>, with no token for generic text, so
  \<^verbatim>\<open>text/plain\<close>, which contains \<^verbatim>\<open>text\<close>, is classified non-text.
\<close>

theorem text_plain_counterexample:
  "Contains (ToLower sample_lib ''text/plain'') ''text''
   \<and> \<not> isTextContent sample_lib ''text/plain'' (Split allowedTypes_default CHR '','')"
  by (simp add: isTextContent_def ToLower_def isASCII_def lower_byte_def allowedTypes_default_def)

text \<open>
  Claim C4, amended. Each program classifies a content type as text-like exactly when the
  content type, lower-cased by \<^verbatim>\<open>strings.ToLower\<close>, contains one of that program's tokens:
  \<^verbatim>\<open>json\<close>, \<^verbatim>\<open>text\<close> and \<^verbatim>\<open>xml\<close>, fixed, in \<^verbatim>\<open>har-to-hoverfly.go\<close> (HTML and JavaScript
  types count through \<^verbatim>\<open>text\<close> or \<^verbatim>\<open>xml\<close> only); the allowed list in the second program,
  whose default is \<^verbatim>\<open>json\<close>, \<^verbatim>\<open>xml\<close>, \<^verbatim>\<open>text/html\<close> and \<^verbatim>\<open>text/javascript\<close>.
\<close>

theorem text_classification:
  "(isTextContentType lib contentType \<longleftrightarrow>
      (\<exists>token \<in> set [''json'', ''text'', ''xml'']. Contains (ToLower lib contentType) token))
   \<and> (isTextContent lib mimeType allowed \<longleftrightarrow>
      (\<exists>token \<in> set allowed. Contains (ToLower lib mimeType) token))
   \<and> Split allowedTypes_default CHR '','' = [''json'', ''xml'', ''text/html'', ''text/javascript'']"
  by (simp add: isTextContentType_def isTextContent_def isTextContent_loop_iff Let_def
        allowedTypes_default_def)

theorem text_classification_witness:
  "isTextContentType sample_lib ''Text/HTML; charset=UTF-8''
   \<and> isTextContent sample_lib ''Text/HTML; charset=UTF-8'' (Split allowedTypes_default CHR '','')
   \<and> isTextContentType sample_lib ''image/png'' = False
   \<and> isTextContent sample_lib ''image/png'' (Split allowedTypes_default CHR '','') = False"
proof -
  have l: "ToLower sample_lib ''Text/HTML; charset=UTF-8'' = ''text/html; charset=utf-8''"
    "ToLower sample_lib ''image/png'' = ''image/png''"
    by (simp_all add: ToLower_def isASCII_def lower_byte_def)
  note first = text_classification [THEN conjunct1]
    and second = text_classification [THEN conjunct2, THEN conjunct1]
    and split = text_classification [THEN conjunct2, THEN conjunct2]
  have "isTextContentType sample_lib ''Text/HTML; charset=UTF-8''"
    by (simp add: first l)
  moreover have "isTextContent sample_lib ''Text/HTML; charset=UTF-8''
                   (Split allowedTypes_default CHR '','')"
    by (simp add: second split l)
  moreover have "isTextContentType sample_lib ''image/png'' = False"
    by (simp add: first l)
  moreover have "isTextContent sample_lib ''image/png'' (Split allowedTypes_default CHR '','') = False"
    by (simp add: second split l)
  ultimately show ?thesis by blast
qed

text \<open>
  A MIME type outside ASCII goes through the lower-casing by code point: where that sends
  the two bytes \<open>0xC4 0xB0\<close> of U+0130 to \<open>i\<close>, as Go does, the type below is text-like under
  the default allowed types.
\<close>

lemma isTextContent_dotted_I:
  assumes "unicode_ToLower lib (''text/javascr'' @ [CHR 0xC4, CHR 0xB0] @ ''pt'') = ''text/javascript''"
  shows "isTextContent lib (''text/javascr'' @ [CHR 0xC4, CHR 0xB0] @ ''pt'')
           (Split allowedTypes_default CHR '','')"
proof -
  have "ToLower lib (''text/javascr'' @ [CHR 0xC4, CHR 0xB0] @ ''pt'') = ''text/javascript''"
    using assms by (simp add: ToLower_def isASCII_def)
  then show ?thesis
    by (simp add: isTextContent_def allowedTypes_default_def)
qed

text \<open>
  Claim C10, as the claim states it, fails in the second program, for its part on an empty
  MIME type: run with \<^verbatim>\<open>--allowed-content-types ""\<close>, whose one token is the empty string,
  and \<^verbatim>\<open>--ignore-non-text\<close>, the program classifies the exchange with the empty MIME type
  as text-like, keeps it and emits its body \<^verbatim>\<open>ok\<close>.
\<close>

theorem empty_mime_type_counterexample:
  "entry_MimeType (entry_Response entry_untyped) = []
   \<and> isTextContent sample_lib [] (Split [] CHR '','')
   \<and> map (\<lambda>pair. resp_Body (pair_Response pair))
        (fst (main_alt sample_lib (Flags_alt_default\<lparr>allowedTypes := [], ignoreNonText := True\<rparr>)
               [entry_untyped]))
      = [''ok'']"
  by (simp add: main_alt_def main_entry_alt_def convertEntryToPair_def parseURL_def
        isTextContent_def ToLower_def isASCII_def exact_def Let_def sample_defs)

text \<open>
  Claim C10, amended. In \<^verbatim>\<open>har-to-hoverfly.go\<close>, when no response header has the name
  \<^verbatim>\<open>Content-Type\<close> in any casing, \<^verbatim>\<open>contentType\<close> stays empty, the empty content type is
  classified non-text, and with \<^verbatim>\<open>--skip-non-text\<close> the body of the included entry is the
  sentinel whatever the body was (and whether or not the size limit was exceeded). In the
  second program an empty MIME type is classified non-text exactly when the empty string
  is not among the allowed types, as under the default ones; that program has no sentinel:
  the body of a pair is the response text, or the empty string when a positive size limit
  is exceeded, and with \<^verbatim>\<open>--ignore-non-text\<close> an entry classified non-text is dropped.
\<close>

lemma main_entry_alt_ignored:
  "ignoreNonText f \<Longrightarrow> \<not> isTextContent lib (entry_MimeType (entry_Response e)) allowed \<Longrightarrow>
     main_entry_alt lib f allowed e st = st"
  by (cases st) (simp add: main_entry_alt_def Let_def)

lemma convertEntryToPair_resp_Body:
  "resp_Body (pair_Response (convertEntryToPair lib e lim allowed)) =
     (if 0 < lim \<and> lim < int (length (entry_Text (entry_Response e))) then []
      else entry_Text (entry_Response e))"
  by (simp add: convertEntryToPair_def Let_def)

lemma isTextContent_Nil: "isTextContent lib [] allowed \<longleftrightarrow> [] \<in> set allowed"
  by (auto simp: isTextContent_def ToLower_Nil isTextContent_loop_iff)

theorem no_content_type_is_non_text:
  "((\<forall>h \<in> set (har_Response_Headers (har_Response entry)).
        ToLower lib (hdr_Name h) \<noteq> ''content-type'')
      \<and> main_entry lib f entry = Some pair \<and> skipNonText f
    \<longrightarrow> \<not> isTextContentType lib
            (fst (respHeaders_loop lib (har_Response_Headers (har_Response entry)) ([], Map.empty)))
        \<and> resp_Body (pair_Response pair) = ''NON_TEXT_RESPONSE_SKIPPED'')
   \<and> (isTextContent lib' [] allowed \<longleftrightarrow> [] \<in> set allowed)
   \<and> \<not> isTextContent lib' [] (Split allowedTypes_default CHR '','')
   \<and> resp_Body (pair_Response (convertEntryToPair lib' e lim allowed)) =
        (if 0 < lim \<and> lim < int (length (entry_Text (entry_Response e))) then []
         else entry_Text (entry_Response e))
   \<and> (isTextContent lib' (entry_MimeType (entry_Response e)) allowed = False
        \<longrightarrow> main_entry_alt lib' (f'\<lparr>ignoreNonText := True\<rparr>) allowed e st = st)"
proof -
  have "\<not> isTextContentType lib []"
    by (simp add: isTextContentType_def ToLower_Nil)
  then have first: "(\<forall>h \<in> set (har_Response_Headers (har_Response entry)).
        ToLower lib (hdr_Name h) \<noteq> ''content-type'')
      \<and> main_entry lib f entry = Some pair \<and> skipNonText f
    \<longrightarrow> \<not> isTextContentType lib
            (fst (respHeaders_loop lib (har_Response_Headers (har_Response entry)) ([], Map.empty)))
        \<and> resp_Body (pair_Response pair) = ''NON_TEXT_RESPONSE_SKIPPED''"
    by (auto simp: main_entry_Some main_pair_resp_Body respHeaders_loop_contentType
          responseBody_policy_def)
  have default: "\<not> isTextContent lib' [] (Split allowedTypes_default CHR '','')"
    by (simp add: isTextContent_Nil allowedTypes_default_def)
  have dropped: "isTextContent lib' (entry_MimeType (entry_Response e)) allowed = False
        \<longrightarrow> main_entry_alt lib' (f'\<lparr>ignoreNonText := True\<rparr>) allowed e st = st"
    by (simp add: main_entry_alt_ignored)
  from first default dropped show ?thesis
    by (simp only: isTextContent_Nil convertEntryToPair_resp_Body simp_thms)
qed

theorem no_content_type_is_non_text_witness:
  "har_Content_Text (har_Response har_untyped) = ''ok''
   \<and> (\<exists>pair. main_entry sample_lib (Flags_default\<lparr>skipNonText := True\<rparr>) har_untyped = Some pair
         \<and> resp_Body (pair_Response pair) = ''NON_TEXT_RESPONSE_SKIPPED'')
   \<and> fst (main_alt sample_lib (Flags_alt_default\<lparr>ignoreNonText := True\<rparr>) [entry_untyped]) = []"
proof -
  let ?f = "Flags_default\<lparr>skipNonText := True\<rparr>"
  let ?allowed = "Split allowedTypes_default CHR '',''"
  obtain p where p: "main_entry sample_lib ?f har_untyped = Some p"
    by (simp add: main_entry_def sample_defs)
  have h: "\<forall>h \<in> set (har_Response_Headers (har_Response har_untyped)).
             ToLower sample_lib (hdr_Name h) \<noteq> ''content-type''"
    by (simp add: sample_defs ToLower_def isASCII_def lower_byte_def)
  have s: "skipNonText ?f" by simp
  note inst = no_content_type_is_non_text [where lib = sample_lib and lib' = sample_lib
      and entry = har_untyped and f = ?f and pair = p and e = entry_untyped and lim = 0
      and f' = Flags_alt_default and allowed = ?allowed and st = "([], [])"]
  note first = inst [THEN conjunct1, rule_format]
    and default = inst [THEN conjunct2, THEN conjunct2, THEN conjunct1]
    and dropped = inst [THEN conjunct2, THEN conjunct2, THEN conjunct2, THEN conjunct2, rule_format]
  from first h p s have one: "resp_Body (pair_Response p) = ''NON_TEXT_RESPONSE_SKIPPED''"
    by simp
  from default
  have "isTextContent sample_lib (entry_MimeType (entry_Response entry_untyped)) ?allowed = False"
    by (simp add: entry_untyped_def)
  then have "main_entry_alt sample_lib (Flags_alt_default\<lparr>ignoreNonText := True\<rparr>) ?allowed
                   entry_untyped ([], []) = ([], [])"
    by (rule dropped)
  then have two: "fst (main_alt sample_lib (Flags_alt_default\<lparr>ignoreNonText := True\<rparr>)
                    [entry_untyped]) = []"
    by (simp add: main_alt_def Flags_alt_default_def)
  from one two p show ?thesis by (simp add: sample_defs)
qed

subsection \<open>The host filter\<close>

text \<open>
  In \<^verbatim>\<open>har-to-hoverfly.go\<close> a configured host filter lets through only the entries whose
  parsed host equals it: every pair of the document has the filter as its destination.
\<close>

lemma host_filter_exact:
  "pair \<in> set (main_loop lib f entries []) \<Longrightarrow> hostFilter f \<noteq> [] \<Longrightarrow>
     req_Destination (pair_Request pair) = [exact (hostFilter f)]"
  by (auto simp: main_loop_set main_entry_Some main_pair_req_single)

text \<open>
  Claim C5. The second program tests \<^verbatim>\<open>strings.Contains(req.URL, *restrictHost)\<close>: the
  whole URL string, not the host parsed from it. Restricted to \<^verbatim>\<open>api.example.com\<close>, a
  request to \<^verbatim>\<open>other.example.org\<close> that names \<^verbatim>\<open>api.example.com\<close> in its query yields a
  pair, although its destination host does not contain the configured host.
\<close>

theorem host_filter_on_raw_url:
  "Host (parseURL sample_lib (entry_URL (entry_Request entry_other))) = ''other.example.org''
   \<and> Contains ''other.example.org'' ''api.example.com'' = False
   \<and> map (\<lambda>pair. map Value (req_Destination (pair_Request pair)))
        (fst (main_alt sample_lib (Flags_alt_default\<lparr>restrictHost := ''api.example.com''\<rparr>)
               [entry_other]))
     = [[''other.example.org'']]"
  by (simp add: main_alt_def main_entry_alt_def convertEntryToPair_def parseURL_def
        isTextContent_def ToLower_def isASCII_def lower_byte_def exact_def Let_def sample_defs)

subsection \<open>Only exact matchers\<close>

lemma reqHeaders_loop_exact:
  assumes "reqHeaders_loop hs Map.empty name = Some ms" and "m \<in> set ms"
  shows "Matcher m = ''exact''"
proof -
  from assms(1) have "ms = at (reqHeaders_loop hs Map.empty) name"
    by (simp add: at_Some)
  with assms(2) show ?thesis
    by (auto simp: reqHeaders_loop_at at_empty exact_def)
qed

lemma reqQuery_loop_exact:
  assumes "reqQuery_loop q Map.empty key = Some ms" and "m \<in> set ms"
  shows "Matcher m = ''exact''"
proof -
  from assms(1) have "ms = at (reqQuery_loop q Map.empty) key"
    by (simp add: at_Some)
  with assms(2) show ?thesis
    by (auto simp: reqQuery_loop_at at_empty exact_def)
qed

lemma main_pair_exact:
  assumes "m \<in> request_matchers (pair_Request (main_pair lib f entry u))"
  shows "Matcher m = ''exact''"
  using assms
  by (auto simp: request_matchers_def main_pair_req_single main_pair_req_Body
        main_pair_req_Headers main_pair_req_Query exact_def ran_def
        split: if_splits dest: reqHeaders_loop_exact reqQuery_loop_exact)

lemma convertEntryToPair_exact:
  assumes "m \<in> request_matchers (pair_Request (convertEntryToPair lib entry lim allowed))"
  shows "Matcher m = ''exact''"
  using assms
  by (auto simp: request_matchers_def convertEntryToPair_def Let_def exact_def)

text \<open>
  Claim C6. In the document of either program, every matcher of every pair's request
  (method, destination, path, body, each header value, each query value) has the kind
  \<^verbatim>\<open>exact\<close>.
\<close>

theorem only_exact_matchers:
  assumes "pair \<in> set (main_loop lib f entries [])
             \<or> pair \<in> set (fst (main_alt lib' f' entries'))"
    and "m \<in> request_matchers (pair_Request pair)"
  shows "Matcher m = ''exact''"
  using assms
  by (auto simp: main_loop_set main_entry_Some main_alt_def main_loop_alt_pairs
        dest: main_pair_exact convertEntryToPair_exact split: if_splits)

theorem only_exact_matchers_witness:
  "\<exists>pair. main_loop sample_lib Flags_default [har_shoe] [] = [pair]
     \<and> req_Headers (pair_Request pair) ''Cookie'' = Some [\<lparr>Matcher = ''exact'', Value = ''a=1''\<rparr>]"
proof -
  obtain p where p: "main_loop sample_lib Flags_default [har_shoe] [] = [p]"
    by (simp add: main_entry_def sample_defs)
  then have is_pair: "p = main_pair sample_lib Flags_default har_shoe
     \<lparr>Host = ''api.example.com'', Path = ''/api/shoe'', RawQuery = ''tag=a&tag=b'',
       Query = [(''tag'', [''a'', ''b''])]\<rparr>"
    by (simp add: main_entry_def sample_defs)
  obtain m where m: "req_Headers (pair_Request p) ''Cookie'' = Some [m]" "Value m = ''a=1''"
    by (simp add: is_pair main_pair_req_Headers har_shoe_def at_def exact_def)
  have "p \<in> set (main_loop sample_lib Flags_default [har_shoe] [])
          \<or> p \<in> set (fst (main_alt sample_lib Flags_alt_default []))"
    using p by simp
  moreover have "m \<in> request_matchers (pair_Request p)"
    using m(1) by (auto simp: request_matchers_def ran_def)
  ultimately have "Matcher m = ''exact''"
    by (rule only_exact_matchers)
  with m have "m = \<lparr>Matcher = ''exact'', Value = ''a=1''\<rparr>" by simp
  with m p show ?thesis by simp
qed

subsection \<open>Repeated headers and query keys\<close>

lemma concat_values_distinct:
  "distinct (map fst q) \<Longrightarrow>
     concat (map snd (filter (\<lambda>kv. fst kv = k) q)) = at (map_of q) k"
proof (induction q)
  case Nil
  show ?case by (simp add: at_def)
next
  case (Cons kv q)
  show ?case
  proof (cases "fst kv = k")
    case True
    with Cons.prems have "k \<notin> fst ` set q" by auto
    then have "filter (\<lambda>kv. fst kv = k) q = []"
      by (auto simp: filter_empty_conv)
    with True show ?thesis by (cases kv) (simp add: at_def)
  next
    case False
    with Cons show ?thesis by (cases kv) (simp add: at_def)
  qed
qed

text \<open>The second program leaves both maps of the request empty.\<close>

lemma convertEntryToPair_no_maps:
  "req_Headers (pair_Request (convertEntryToPair lib entry lim allowed)) = Map.empty
   \<and> req_Query (pair_Request (convertEntryToPair lib entry lim allowed)) = Map.empty"
  by (simp add: convertEntryToPair_def Let_def)

text \<open>
  Claim C8. For an included entry of \<^verbatim>\<open>har-to-hoverfly.go\<close>, with \<open>u\<close> its parsed URL: under
  every name, the header map of the pair's request holds one exact matcher for each request
  header of that name, in the order of the archive; under every key, the query map holds
  one exact matcher for each value that \<^verbatim>\<open>u.Query()\<close> has under that key, in that order
  (whatever the order in which the entries of \<^verbatim>\<open>u.Query()\<close> are visited; for a Go map,
  whose keys are distinct, this is the slice \<^verbatim>\<open>u.Query()[key]\<close>).
\<close>

theorem multiplicity_preserved:
  assumes "main_entry lib f entry = Some pair"
  shows "\<exists>u. url_Parse lib (har_URL (har_Request entry)) = Some u
    \<and> at (req_Headers (pair_Request pair)) name =
        map (\<lambda>h. \<lparr>Matcher = ''exact'', Value = hdr_Value h\<rparr>)
          (filter (\<lambda>h. hdr_Name h = name) (har_Headers (har_Request entry)))
    \<and> at (req_Query (pair_Request pair)) key =
        map (\<lambda>v. \<lparr>Matcher = ''exact'', Value = v\<rparr>)
          (concat (map snd (filter (\<lambda>kv. fst kv = key) (Query u))))
    \<and> (distinct (map fst (Query u)) \<longrightarrow>
         at (req_Query (pair_Request pair)) key =
           map (\<lambda>v. \<lparr>Matcher = ''exact'', Value = v\<rparr>) (at (map_of (Query u)) key))"
proof -
  from assms obtain u where u: "url_Parse lib (har_URL (har_Request entry)) = Some u"
    and pair: "pair = main_pair lib f entry u"
    by (auto simp: main_entry_Some)
  have h: "at (req_Headers (pair_Request pair)) name =
        map (\<lambda>h. \<lparr>Matcher = ''exact'', Value = hdr_Value h\<rparr>)
          (filter (\<lambda>h. hdr_Name h = name) (har_Headers (har_Request entry)))"
    by (simp add: pair main_pair_req_Headers reqHeaders_loop_at at_empty exact_def)
  have q: "at (req_Query (pair_Request pair)) key =
        map (\<lambda>v. \<lparr>Matcher = ''exact'', Value = v\<rparr>)
          (concat (map snd (filter (\<lambda>kv. fst kv = key) (Query u))))"
    by (simp add: pair main_pair_req_Query reqQuery_loop_at at_empty exact_def [abs_def])
  from u h q show ?thesis
    by (auto simp: concat_values_distinct)
qed

theorem multiplicity_preserved_witness:
  "\<exists>pair. main_entry sample_lib Flags_default har_shoe = Some pair
     \<and> at (req_Headers (pair_Request pair)) ''Accept'' =
         [\<lparr>Matcher = ''exact'', Value = ''text/plain''\<rparr>,
          \<lparr>Matcher = ''exact'', Value = ''application/json''\<rparr>]
     \<and> at (req_Query (pair_Request pair)) ''tag'' =
         [\<lparr>Matcher = ''exact'', Value = ''a''\<rparr>, \<lparr>Matcher = ''exact'', Value = ''b''\<rparr>]"
proof -
  obtain p where p: "main_entry sample_lib Flags_default har_shoe = Some p"
    by (simp add: main_entry_def sample_defs)
  from multiplicity_preserved [OF p, of "''Accept''" "''tag''"] p
  show ?thesis by (auto simp: sample_defs)
qed

subsection \<open>Entries whose URL does not parse\<close>

lemma main_entry_unparsable:
  "url_Parse lib (har_URL (har_Request entry)) = None \<Longrightarrow> main_entry lib f entry = None"
  by (simp add: main_entry_def)

lemma summarise_entry_unparsable:
  "url_Parse lib (har_URL (har_Request entry)) = None \<Longrightarrow> summarise_entry lib f entry m = Inr m"
  by (simp add: summarise_entry_def)

lemma main_loop_skip:
  "main_entry lib f entry = None \<Longrightarrow>
     main_loop lib f (earlier @ entry # later) pairs = main_loop lib f (earlier @ later) pairs"
  by (simp add: main_loop_append)

lemma summarise_loop_skip:
  "(\<And>m. summarise_entry lib f entry m = Inr m) \<Longrightarrow>
     summarise_loop lib f (earlier @ entry # later) m = summarise_loop lib f (earlier @ later) m"
  by (simp add: summarise_loop_append split: sum.splits)

text \<open>
  Claim C3, as the claim states it, fails in the second program: \<^verbatim>\<open>parseURL\<close> answers a
  parse error with the zero URL and \<^verbatim>\<open>main\<close> goes on with the entry, so an archive whose
  only entry has the URL \<^verbatim>\<open>:bad\<close> gives a document with one pair, whose destination and
  path matchers hold the empty string.
\<close>

theorem unparsable_url_counterexample:
  "url_Parse sample_lib (entry_URL (entry_Request entry_bad)) = None
   \<and> map (\<lambda>pair. (map Value (req_Destination (pair_Request pair)),
                  map Value (req_Path (pair_Request pair))))
       (fst (main_alt sample_lib Flags_alt_default [entry_bad])) = [([[]], [[]])]"
  by (simp add: main_alt_def main_entry_alt_def convertEntryToPair_def parseURL_def URL_zero_def
        isTextContent_def ToLower_def isASCII_def lower_byte_def exact_def Let_def sample_defs)

text \<open>
  Claim C3, amended. In \<^verbatim>\<open>har-to-hoverfly.go\<close> an entry whose URL does not parse changes
  nothing: the pairs, the summary map and the result of \<^verbatim>\<open>main\<close> are those of the archive
  without the entry, whatever comes before and after it. In the second program such an
  entry is handled as one with the zero URL: unless the host or the content-type filter
  excludes it, it yields a pair whose destination and path matchers hold the empty string
  or, in summary mode, the entry of its method in the table under the empty host and the
  empty path.
\<close>

theorem unparsable_url:
  "(url_Parse lib (har_URL (har_Request entry)) = None \<longrightarrow>
      main_loop lib f (earlier @ entry # later) pairs = main_loop lib f (earlier @ later) pairs
      \<and> summarise_loop lib f (earlier @ entry # later) summaryMap
          = summarise_loop lib f (earlier @ later) summaryMap
      \<and> main lib f (earlier @ entry # later) = main lib f (earlier @ later))
   \<and> (url_Parse lib' (entry_URL (entry_Request e)) = None
        \<and> (restrictHost f' = [] \<or> Contains (entry_URL (entry_Request e)) (restrictHost f'))
        \<and> (isTextContent lib' (entry_MimeType (entry_Response e)) allowed \<or> ignoreNonText f' = False)
      \<longrightarrow> parseURL lib' (entry_URL (entry_Request e)) = URL_zero
        \<and> (\<exists>pair. main_entry_alt lib' (f'\<lparr>summarise_alt := False\<rparr>) allowed e (pairs', t)
                     = (pairs' @ [pair], t)
              \<and> req_Destination (pair_Request pair) = [\<lparr>Matcher = ''exact'', Value = []\<rparr>]
              \<and> req_Path (pair_Request pair) = [\<lparr>Matcher = ''exact'', Value = []\<rparr>])
        \<and> main_entry_alt lib' (f'\<lparr>summarise_alt := True\<rparr>) allowed e (pairs', t)
             = (pairs',
                AList.update []
                  (AList.update []
                     (AList.update (entry_Method (entry_Request e)) True
                        (at (map_of (at (map_of t) [])) []))
                     (at (map_of t) []))
                  t))"
  by (auto simp: main_loop_skip main_entry_unparsable summarise_loop_skip
        summarise_entry_unparsable main_def parseURL_def URL_zero_def main_entry_alt_def
        convertEntryToPair_def exact_def Let_def)

theorem unparsable_url_witness:
  "main sample_lib Flags_default [har_products, har_bad, har_shoe]
     = main sample_lib Flags_default [har_products, har_shoe]
   \<and> main sample_lib (Flags_default\<lparr>summarise := True\<rparr>) [har_products, har_bad, har_shoe]
     = main sample_lib (Flags_default\<lparr>summarise := True\<rparr>) [har_products, har_shoe]
   \<and> parseURL sample_lib (entry_URL (entry_Request entry_bad)) = URL_zero"
proof -
  have a: "url_Parse sample_lib (har_URL (har_Request har_bad)) = None"
    by (simp add: sample_defs)
  have b: "url_Parse sample_lib (entry_URL (entry_Request entry_bad)) = None"
    "restrictHost Flags_alt_default = [] \<or>
       Contains (entry_URL (entry_Request entry_bad)) (restrictHost Flags_alt_default)"
    "isTextContent sample_lib (entry_MimeType (entry_Response entry_bad)) [] \<or> ignoreNonText Flags_alt_default = False"
    by (simp_all add: sample_defs)
  note A = unparsable_url [where lib = sample_lib and entry = har_bad
              and earlier = "[har_products]" and later = "[har_shoe]",
              THEN conjunct1, rule_format, OF a]
  note B = unparsable_url [where lib' = sample_lib and e = entry_bad
              and f' = Flags_alt_default and allowed = "[]", THEN conjunct2, rule_format]
  from A [of Flags_default] A [of "Flags_default\<lparr>summarise := True\<rparr>"] B b
  show ?thesis by simp
qed

end
